theory Spec2Isabelle
  imports Main "HOL-Library.Word"
begin

section \<open>Errors\<close>

text \<open>
  Go errors are values. The program builds them with \<^verbatim>\<open>errors.New\<close> and
  \<^verbatim>\<open>errors.Wrapf\<close>, receives them from the libraries it calls, and tells two of
  them apart: the errors \<^verbatim>\<open>os.IsNotExist\<close> accepts, and go-git's sentinel
  \<^verbatim>\<open>git.NoErrAlreadyUpToDate\<close>, which it compares by identity.
\<close>

datatype error =
    NotExist string             \<comment> \<open>an error of a path for which \<^verbatim>\<open>os.IsNotExist\<close> holds\<close>
  | NoErrAlreadyUpToDate        \<comment> \<open>go-git's sentinel "already up-to-date"\<close>
  | Msg string                  \<comment> \<open>\<^verbatim>\<open>errors.New(msg)\<close>, and any other library error\<close>
  | Wrapf error string          \<comment> \<open>\<^verbatim>\<open>errors.Wrapf(err, msg)\<close>\<close>

fun IsNotExist :: "error \<Rightarrow> bool" where
  "IsNotExist (NotExist p) = True"
| "IsNotExist e = False"

section \<open>Configuration (fs.go)\<close>

subsection \<open>\<^verbatim>\<open>strings.TrimSpace\<close>\<close>

text \<open>
  A Go string is a sequence of bytes, read as UTF-8. \<^verbatim>\<open>strings.TrimSpace\<close> removes
  from both ends every rune for which \<^verbatim>\<open>unicode.IsSpace\<close> holds. The runes are listed
  here by their UTF-8 encodings: the six ASCII ones, U+0085, U+00A0, U+1680, U+2000 to
  U+200A, U+2028, U+2029, U+202F, U+205F and U+3000.
\<close>

definition spaceRunes :: "string list" where
  "spaceRunes =
    [[CHR 0x09], [CHR 0x0A], [CHR 0x0B], [CHR 0x0C], [CHR 0x0D], [CHR 0x20],
     [CHR 0xC2, CHR 0x85], [CHR 0xC2, CHR 0xA0],
     [CHR 0xE1, CHR 0x9A, CHR 0x80],
     [CHR 0xE2, CHR 0x80, CHR 0x80], [CHR 0xE2, CHR 0x80, CHR 0x81],
     [CHR 0xE2, CHR 0x80, CHR 0x82], [CHR 0xE2, CHR 0x80, CHR 0x83],
     [CHR 0xE2, CHR 0x80, CHR 0x84], [CHR 0xE2, CHR 0x80, CHR 0x85],
     [CHR 0xE2, CHR 0x80, CHR 0x86], [CHR 0xE2, CHR 0x80, CHR 0x87],
     [CHR 0xE2, CHR 0x80, CHR 0x88], [CHR 0xE2, CHR 0x80, CHR 0x89],
     [CHR 0xE2, CHR 0x80, CHR 0x8A],
     [CHR 0xE2, CHR 0x80, CHR 0xA8], [CHR 0xE2, CHR 0x80, CHR 0xA9],
     [CHR 0xE2, CHR 0x80, CHR 0xAF], [CHR 0xE2, CHR 0x81, CHR 0x9F],
     [CHR 0xE3, CHR 0x80, CHR 0x80]]"

text \<open>Does the string start with the encoding \<open>e\<close>?\<close>

definition startsWith :: "string \<Rightarrow> string \<Rightarrow> bool" where
  "startsWith s e \<longleftrightarrow> e \<noteq> [] \<and> take (length e) s = e"

text \<open>The loop of \<^verbatim>\<open>TrimLeftFunc\<close>: drop leading runes of the list while there is one.\<close>

function trimRunes :: "string list \<Rightarrow> string \<Rightarrow> string" where
  "trimRunes rs s =
     (case find (startsWith s) rs of
        None \<Rightarrow> s
      | Some e \<Rightarrow> trimRunes rs (drop (length e) s))"
  by pat_completeness auto
termination
proof (relation "measure (\<lambda>(rs, s). length s)")
  show "wf (measure (\<lambda>(rs, s). length s))" by simp
next
  fix rs :: "string list" and s e :: string
  assume "find (startsWith s) rs = Some e"
  then have "startsWith s e"
    by (auto simp: find_Some_iff)
  then have "e \<noteq> []" and "take (length e) s = e"
    by (simp_all add: startsWith_def)
  then have "0 < length e"
    by simp
  moreover have "length (take (length e) s) = length e"
    using \<open>take (length e) s = e\<close> by simp
  then have "length e \<le> length s"
    by simp
  ultimately show "((rs, drop (length e) s), (rs, s)) \<in> measure (\<lambda>(rs, s). length s)"
    by (cases e) simp_all
qed

declare trimRunes.simps [simp del]

definition TrimSpace :: "string \<Rightarrow> string" where
  "TrimSpace s =
     rev (trimRunes (map rev spaceRunes) (rev (trimRunes spaceRunes s)))"

subsection \<open>\<^verbatim>\<open>Config\<close>\<close>

record Config =
  repoUrl :: string
  useMemFs :: bool
  osFsBaseDir :: string
  openExisting :: bool

definition NewConfig :: Config where
  "NewConfig = \<lparr>repoUrl = [], useMemFs = False, osFsBaseDir = [], openExisting = False\<rparr>"

definition SetUrl :: "string \<Rightarrow> Config \<Rightarrow> Config" where
  "SetUrl url c = c\<lparr>repoUrl := url\<rparr>"

definition UseMemFs :: "Config \<Rightarrow> Config" where
  "UseMemFs c = c\<lparr>useMemFs := True, openExisting := False, osFsBaseDir := []\<rparr>"

definition UseOsFs :: "string \<Rightarrow> bool \<Rightarrow> Config \<Rightarrow> Config" where
  "UseOsFs baseDir oe c = c\<lparr>useMemFs := False, openExisting := oe, osFsBaseDir := baseDir\<rparr>"

text \<open>
  \<^verbatim>\<open>Config.Valid\<close> writes the trimmed fields back into the configuration as it goes,
  so it returns the configuration with its verdict. When the URL is empty the base
  directory is not reached and stays untrimmed.
\<close>

definition Valid :: "Config \<Rightarrow> error option \<times> Config" where
  "Valid c =
     (let c1 = c\<lparr>repoUrl := TrimSpace (repoUrl c)\<rparr> in
      if repoUrl c1 = [] then (Some (Msg ''empty repo url''), c1)
      else
        let c2 = c1\<lparr>osFsBaseDir := TrimSpace (osFsBaseDir c1)\<rparr> in
        if useMemFs c2 \<and> osFsBaseDir c2 \<noteq> [] then
          (Some (Msg ''memFs and osFs base dir are mutually exclusive''), c2)
        else if \<not> useMemFs c2 \<and> osFsBaseDir c2 = [] then
          (Some (Msg ''osFs base dir is not provided''), c2)
        else (None, c2))"

section \<open>The libraries behind the program\<close>

text \<open>
  The program drives three libraries: go-billy (the backing store), go-git (the
  repository, the working tree and the remote) and the Go standard library (the key
  file, the clock). Their objects are references; what they hold lives in a world
  \<open>'w\<close> that every call reads and most calls change. The record \<open>Lib\<close> holds one
  function for each library call the program makes; a call that can fail returns the
  error on the left.
\<close>

type_synonym ref = nat

record FileInfo =
  Name :: string
  IsDir :: bool

text \<open>
  What \<^verbatim>\<open>fs.ReadDir\<close> reports for a directory and, entry by entry, for the directories
  below it: the listing in the order \<^verbatim>\<open>ReadDir\<close> returns it, or the error of a
  directory that cannot be read. An entry is its name with the tree of the directory it
  names, or with \<open>None\<close> when \<^verbatim>\<open>IsDir()\<close> is false.
\<close>

datatype dir =
    Listing "(string \<times> dir option) list"
  | Unreadable error

datatype PublicKeys = PublicKeys string ref       \<comment> \<open>User, Signer\<close>
datatype CloneOptions = CloneOptions string PublicKeys   \<comment> \<open>URL, Auth\<close>
datatype RemoteConfig = RemoteConfig string "string list"   \<comment> \<open>Name, URLs\<close>
datatype PullOptions = PullOptions string PublicKeys    \<comment> \<open>RemoteName, Auth\<close>
datatype PushOptions = PushOptions string "string list" PublicKeys
  \<comment> \<open>RemoteName, RefSpecs, Auth\<close>
datatype Signature = Signature string string nat    \<comment> \<open>Name, Email, When\<close>
datatype CommitOptions = CommitOptions bool Signature   \<comment> \<open>All, Author\<close>

text \<open>
  go-git's \<^verbatim>\<open>StatusCode\<close> is a byte type with eight declared constants, the only
  values its status computation produces.
\<close>

datatype git_StatusCode =
    git_Unmodified | git_Untracked | git_Modified | git_Added
  | git_Deleted | git_Renamed | git_Copied | git_UpdatedButUnmerged

text \<open>Each is a byte, the letter of git's short status.\<close>

fun git_byte :: "git_StatusCode \<Rightarrow> 8 word" where
  "git_byte git_Unmodified = 0x20"
| "git_byte git_Untracked = 0x3F"
| "git_byte git_Modified = 0x4D"
| "git_byte git_Added = 0x41"
| "git_byte git_Deleted = 0x44"
| "git_byte git_Renamed = 0x52"
| "git_byte git_Copied = 0x43"
| "git_byte git_UpdatedButUnmerged = 0x55"

record FileStatus =
  Staging :: git_StatusCode
  Worktree :: git_StatusCode

text \<open>\<^verbatim>\<open>git.Status\<close> is a map from paths to \<^verbatim>\<open>*FileStatus\<close>; a missing key reads as nil.\<close>

type_synonym Status = "string \<rightharpoonup> FileStatus"

text \<open>
  The methods of \<^verbatim>\<open>billy.Filesystem\<close> that the facade forwards without looking at
  what they return, and the values they return.
\<close>

datatype fsop =
    OpCreate string
  | OpOpen string
  | OpOpenFile string int nat
  | OpRename string string
  | OpRemove string
  | OpJoin "string list"
  | OpTempFile string string
  | OpReadDir string
  | OpMkdirAll string nat
  | OpLstat string
  | OpSymlink string string
  | OpReadlink string
  | OpRoot

datatype fsval =
    VFile ref
  | VInfo FileInfo
  | VInfos "FileInfo list"
  | VString string
  | VUnit

text \<open>
  \<open>fs_Tree f w\<close> is what \<^verbatim>\<open>ReadDir\<close> reports through the file system \<open>f\<close> in the world
  \<open>w\<close>, from its root down; \<open>fs_op\<close> is every forwarded method whose answer the program
  does not look at. A call that only reads returns no world: the environment and the key
  file, \<^verbatim>\<open>Stat\<close>, \<^verbatim>\<open>Chroot\<close>, \<^verbatim>\<open>ReadDir\<close>, \<^verbatim>\<open>Worktree\<close>, \<^verbatim>\<open>Status\<close> and the clock.
\<close>

record 'w Lib =
  Getenv :: "string \<Rightarrow> 'w \<Rightarrow> string"
  ReadFile :: "string \<Rightarrow> 'w \<Rightarrow> error + string"
  ParsePrivateKey :: "string \<Rightarrow> error + ref"
  memfs_New :: "'w \<Rightarrow> ref \<times> 'w"
  osfs_New :: "string \<Rightarrow> 'w \<Rightarrow> ref \<times> 'w"
  fs_Stat :: "ref \<Rightarrow> string \<Rightarrow> 'w \<Rightarrow> error + FileInfo"
  fs_Chroot :: "ref \<Rightarrow> string \<Rightarrow> 'w \<Rightarrow> error + ref"
  fs_Tree :: "ref \<Rightarrow> 'w \<Rightarrow> dir"
  fs_op :: "ref \<Rightarrow> fsop \<Rightarrow> 'w \<Rightarrow> (error + fsval) \<times> 'w"
  util_RemoveAll :: "ref \<Rightarrow> string \<Rightarrow> 'w \<Rightarrow> error option \<times> 'w"
  NewStorage :: "ref \<Rightarrow> ref"
  git_Open :: "ref \<Rightarrow> ref \<Rightarrow> 'w \<Rightarrow> (error + ref) \<times> 'w"
  git_CloneContext :: "ref \<Rightarrow> ref \<Rightarrow> ref \<Rightarrow> CloneOptions \<Rightarrow> 'w \<Rightarrow> (error + ref) \<times> 'w"
  git_Init :: "ref \<Rightarrow> ref \<Rightarrow> 'w \<Rightarrow> (error + ref) \<times> 'w"
  repo_CreateRemote :: "ref \<Rightarrow> RemoteConfig \<Rightarrow> 'w \<Rightarrow> error option \<times> 'w"
  repo_Worktree :: "ref \<Rightarrow> 'w \<Rightarrow> error + ref"
  repo_Push :: "ref \<Rightarrow> PushOptions \<Rightarrow> 'w \<Rightarrow> error option \<times> 'w"
  wt_Pull :: "ref \<Rightarrow> PullOptions \<Rightarrow> 'w \<Rightarrow> error option \<times> 'w"
  wt_Add :: "ref \<Rightarrow> string \<Rightarrow> 'w \<Rightarrow> error option \<times> 'w"
  wt_Commit :: "ref \<Rightarrow> string \<Rightarrow> CommitOptions \<Rightarrow> 'w \<Rightarrow> error option \<times> 'w"
  wt_Status :: "ref \<Rightarrow> 'w \<Rightarrow> error + Status"
  Now :: "'w \<Rightarrow> nat"
  Format :: "string \<Rightarrow> nat \<Rightarrow> string"

section \<open>The git client\<close>

record Git =
  ctx :: "ref option"
  repoUrl :: string
  auth :: PublicKeys
  fs :: ref
  repo :: ref
  wt :: ref
  pulled :: bool

definition GitDirName :: string where
  "GitDirName = ''.git''"

subsection \<open>\<^verbatim>\<open>buildDotStore\<close>\<close>

text \<open>
  The Go function returns the storage, the flag \<open>exists\<close> and the error. The checks
  run in the order of the source: a \<^verbatim>\<open>Stat\<close> error other than "does not exist"; then,
  when the entry exists, \<open>errorIfExists\<close> before \<^verbatim>\<open>IsDir\<close>; then the \<^verbatim>\<open>Chroot\<close>.
\<close>

definition buildDotStore :: "'w Lib \<Rightarrow> ref \<Rightarrow> bool \<Rightarrow> 'w \<Rightarrow> (error + ref) \<times> bool" where
  "buildDotStore L f errorIfExists w =
     (let st = fs_Stat L f GitDirName w;
          exists = (case st of Inl err \<Rightarrow> \<not> IsNotExist err | Inr fi \<Rightarrow> True)
      in
      case st of
        Inl err \<Rightarrow>
          if \<not> IsNotExist err then (Inl err, exists)
          else
            (case fs_Chroot L f GitDirName w of
               Inl err' \<Rightarrow> (Inl (Wrapf err' (''error chrooting '' @ GitDirName)), exists)
             | Inr dot \<Rightarrow> (Inr (NewStorage L dot), exists))
      | Inr fi \<Rightarrow>
          if errorIfExists then (Inl (Msg ''repo already exists''), True)
          else if \<not> IsDir fi then (Inl (Msg ''.git is not a directory''), True)
          else
            (case fs_Chroot L f GitDirName w of
               Inl err' \<Rightarrow> (Inl (Wrapf err' (''error chrooting '' @ GitDirName)), exists)
             | Inr dot \<Rightarrow> (Inr (NewStorage L dot), exists)))"

subsection \<open>\<^verbatim>\<open>NewGit\<close>\<close>

definition NewGit ::
  "'w Lib \<Rightarrow> ref \<Rightarrow> string \<Rightarrow> bool \<Rightarrow> string \<Rightarrow> bool \<Rightarrow> 'w \<Rightarrow> (error + Git) \<times> 'w" where
  "NewGit L c url useMemfs baseDir errorIfExists w =
     (case ReadFile L (Getenv L ''HOME'' w @ ''/.ssh/id_rsa'') w of
        Inl err \<Rightarrow> (Inl (Wrapf err ''error reading private key''), w)
      | Inr sshKey \<Rightarrow>
     (case ParsePrivateKey L sshKey of
        Inl err \<Rightarrow> (Inl (Wrapf err ''error parsing private key''), w)
      | Inr signer \<Rightarrow>
     (let a = PublicKeys ''git'' signer;
          (f, w1) = (if useMemfs then memfs_New L w else osfs_New L baseDir w)
      in
      case buildDotStore L f errorIfExists w1 of
        (Inl err, exists) \<Rightarrow> (Inl (Wrapf err ''error chrooting .git''), w1)
      | (Inr dotStore, exists) \<Rightarrow>
     (case (if exists then git_Open L dotStore f w1
            else git_CloneContext L c dotStore f (CloneOptions url a) w1) of
        (Inl err, w2) \<Rightarrow> (Inl (Wrapf err (''error cloning repo '' @ url)), w2)
      | (Inr r, w2) \<Rightarrow>
     (case repo_Worktree L r w2 of
        Inl err \<Rightarrow> (Inl (Wrapf err ''error reading worktree''), w2)
      | Inr t \<Rightarrow>
          (Inr \<lparr>ctx = None, repoUrl = url, auth = a, fs = f, repo = r, wt = t,
                pulled = False\<rparr>, w2))))))"

subsection \<open>\<^verbatim>\<open>Reset\<close>, \<^verbatim>\<open>Pull\<close>, \<^verbatim>\<open>AddAll\<close>, \<^verbatim>\<open>Commit\<close>, \<^verbatim>\<open>Push\<close>\<close>

text \<open>
  \<^verbatim>\<open>Reset\<close> assigns \<^verbatim>\<open>g.repo\<close> and \<^verbatim>\<open>g.wt\<close> only at its end: a failure leaves the
  client as it was, in the world the failing call left behind.
\<close>

definition Reset :: "'w Lib \<Rightarrow> Git \<Rightarrow> 'w \<Rightarrow> error option \<times> Git \<times> 'w" where
  "Reset L g w =
     (case util_RemoveAll L (Git.fs g) GitDirName w of
        (Some err, w1) \<Rightarrow> (Some (Wrapf err ''error removing .git''), g, w1)
      | (None, w1) \<Rightarrow>
     (case buildDotStore L (Git.fs g) True w1 of
        (Inl err, exists) \<Rightarrow> (Some err, g, w1)
      | (Inr dotStore, exists) \<Rightarrow>
     (case git_Init L dotStore (Git.fs g) w1 of
        (Inl err, w2) \<Rightarrow> (Some (Wrapf err ''error initing repo''), g, w2)
      | (Inr r, w2) \<Rightarrow>
     (case repo_CreateRemote L r (RemoteConfig ''origin'' [Git.repoUrl g]) w2 of
        (Some err, w3) \<Rightarrow> (Some (Wrapf err ''error pushing change''), g, w3)
      | (None, w3) \<Rightarrow>
     (case repo_Worktree L r w3 of
        Inl err \<Rightarrow> (Some (Wrapf err ''error reading worktree''), g, w3)
      | Inr t \<Rightarrow> (None, g\<lparr>repo := r, wt := t\<rparr>, w3))))))"

definition FileSystem :: "Git \<Rightarrow> ref" where
  "FileSystem g = Git.fs g"

definition Pull :: "'w Lib \<Rightarrow> Git \<Rightarrow> 'w \<Rightarrow> error option \<times> 'w" where
  "Pull L g w =
     (case wt_Pull L (wt g) (PullOptions ''origin'' (auth g)) w of
        (Some err, w1) \<Rightarrow>
          if err \<noteq> NoErrAlreadyUpToDate
          then (Some (Wrapf err ''error pulling changes from origin''), w1)
          else (None, w1)
      | (None, w1) \<Rightarrow> (None, w1))"

definition AddAll :: "'w Lib \<Rightarrow> Git \<Rightarrow> 'w \<Rightarrow> error option \<times> 'w" where
  "AddAll L g w = wt_Add L (wt g) [] w"

definition Commit :: "'w Lib \<Rightarrow> string \<Rightarrow> Git \<Rightarrow> 'w \<Rightarrow> error option \<times> 'w" where
  "Commit L msg g w =
     wt_Commit L (wt g) msg
       (CommitOptions True (Signature ''gitfs'' ''gitfs@github.com'' (Now L w))) w"

text \<open>
  \<^verbatim>\<open>Push\<close> hands the library a single refspec and returns the library's verdict as it
  is. The refspec begins with \<^verbatim>\<open>+\<close>. What the library and the remote do with a
  push is theirs to decide: \<open>repo_Push\<close> is any function.
\<close>

definition Push :: "'w Lib \<Rightarrow> Git \<Rightarrow> 'w \<Rightarrow> error option \<times> 'w" where
  "Push L g w =
     repo_Push L (repo g)
       (PushOptions ''origin'' [''+refs/heads/master:refs/heads/master''] (auth g)) w"

subsection \<open>\<^verbatim>\<open>traverseDir\<close>\<close>

text \<open>
  \<^verbatim>\<open>filepath.Join(dir, name)\<close> on the arguments the traversal gives it: \<open>dir\<close> is
  \<^verbatim>\<open>"/"\<close> or a clean absolute path, and \<open>name\<close> is the name of a directory entry (not
  empty, no separator in it, neither \<^verbatim>\<open>"."\<close> nor \<^verbatim>\<open>".."\<close>), so that cleaning the joined
  path only removes the doubled separator after the root.
\<close>

definition Join :: "string \<Rightarrow> string \<Rightarrow> string" where
  "Join d name = (if d = ''/'' then ''/'' @ name else d @ ''/'' @ name)"

text \<open>
  The callback threads a state \<open>'s\<close> (in Go, the variables its closure captures) and may
  fail. \<open>traverseDir\<close> is the function, called with what \<^verbatim>\<open>fs.ReadDir(dir)\<close> answers;
  \<open>traverseFiles\<close> is its \<^verbatim>\<open>for\<close> loop over the entries still to visit.
\<close>

function traverseDir :: "dir \<Rightarrow> string \<Rightarrow> (string \<Rightarrow> 's \<Rightarrow> error + 's) \<Rightarrow> 's \<Rightarrow> error + 's"
  and traverseFiles ::
    "(string \<times> dir option) list \<Rightarrow> string \<Rightarrow> (string \<Rightarrow> 's \<Rightarrow> error + 's) \<Rightarrow> 's \<Rightarrow> error + 's"
where
  "traverseDir (Unreadable err) d cb s = Inl err"
| "traverseDir (Listing files) d cb s = traverseFiles files d cb s"
| "traverseFiles [] d cb s = Inr s"
| "traverseFiles ((name, sub) # files) d cb s =
     (if name = GitDirName then traverseFiles files d cb s
      else
        let path = Join d name in
        case sub of
          Some t \<Rightarrow>
            (case traverseDir t path cb s of
               Inl err \<Rightarrow> Inl err
             | Inr s' \<Rightarrow> traverseFiles files d cb s')
        | None \<Rightarrow>
            (case cb (drop 1 path) s of
               Inl err \<Rightarrow> Inl err
             | Inr s' \<Rightarrow> traverseFiles files d cb s'))"
  by pat_completeness auto
termination
  by (relation "measure (\<lambda>x. case x of
        Inl (t, d, cb, s) \<Rightarrow> size t
      | Inr (files, d, cb, s) \<Rightarrow> size_list (size_prod (\<lambda>n. 0) (size_option size)) files)")
     auto

subsection \<open>\<^verbatim>\<open>GetStatus\<close>\<close>

text \<open>
  \<^verbatim>\<open>StatusCode\<close> is a byte. The conversion \<^verbatim>\<open>StatusCode(byte(c))\<close> of a go-git code
  keeps the byte, \<open>git_byte c\<close>.
\<close>

type_synonym StatusCode = "8 word"

definition Unmodified :: StatusCode where "Unmodified = 0x20"
definition Inconsistent :: StatusCode where "Inconsistent = 0x21"
definition Untracked :: StatusCode where "Untracked = 0x3F"
definition Modified :: StatusCode where "Modified = 0x4D"
definition Added :: StatusCode where "Added = 0x41"
definition Deleted :: StatusCode where "Deleted = 0x44"
definition Renamed :: StatusCode where "Renamed = 0x52"
definition Copied :: StatusCode where "Copied = 0x43"
definition UpdatedButUnmerged :: StatusCode where "UpdatedButUnmerged = 0x55"

text \<open>
  The closure \<^verbatim>\<open>GetStatus\<close> passes to \<^verbatim>\<open>traverseDir\<close>: \<open>s\<close> is the raw status it
  captures, \<open>files\<close> the map it fills. It never fails.
\<close>

definition statusCallback ::
  "Status \<Rightarrow> string \<Rightarrow> (string \<rightharpoonup> StatusCode) \<Rightarrow> error + (string \<rightharpoonup> StatusCode)" where
  "statusCallback s path files =
     (case s path of
        None \<Rightarrow> Inr files
      | Some fstatus \<Rightarrow>
          if Staging fstatus = git_Unmodified \<and> Worktree fstatus = git_Unmodified then
            Inr files
          else if Staging fstatus = git_Unmodified then
            Inr (files(path \<mapsto> git_byte (Worktree fstatus)))
          else if Worktree fstatus = git_Unmodified then
            Inr (files(path \<mapsto> git_byte (Staging fstatus)))
          else if Staging fstatus \<noteq> Worktree fstatus then
            Inr (files(path \<mapsto> Inconsistent))
          else
            Inr (files(path \<mapsto> git_byte (Worktree fstatus))))"

definition GetStatus :: "'w Lib \<Rightarrow> Git \<Rightarrow> 'w \<Rightarrow> error + (string \<rightharpoonup> StatusCode)" where
  "GetStatus L g w =
     (case wt_Status L (wt g) w of
        Inl err \<Rightarrow> Inl (Wrapf err ''error getting status'')
      | Inr s \<Rightarrow> traverseDir (fs_Tree L (Git.fs g) w) ''/'' (statusCallback s) Map.empty)"

section \<open>The file system facade (fs.go)\<close>

text \<open>
  \<^verbatim>\<open>GitFs.git\<close> is a pointer: \<open>None\<close> is nil. A method of \<^verbatim>\<open>*Git\<close> called through a
  nil pointer faults at its first access to a field, which in \<^verbatim>\<open>Pull\<close>, \<^verbatim>\<open>Reset\<close> and
  \<^verbatim>\<open>AddAll\<close> comes before any library call.
\<close>

record GitFs =
  git :: "Git option"
  fs :: ref

datatype 'a outcome = Return 'a | Panic

definition New :: "'w Lib \<Rightarrow> ref \<Rightarrow> Config \<Rightarrow> 'w \<Rightarrow> (error + GitFs) \<times> Config \<times> 'w" where
  "New L c config w =
     (case Valid config of
        (Some err, config') \<Rightarrow> (Inl err, config', w)
      | (None, config') \<Rightarrow>
     (case NewGit L c (Config.repoUrl config') (useMemFs config') (osFsBaseDir config')
             (\<not> openExisting config') w of
        (Inl err, w1) \<Rightarrow> (Inl (Wrapf err ''error creating git client''), config', w1)
      | (Inr g, w1) \<Rightarrow> (Inr \<lparr>git = Some g, fs = FileSystem g\<rparr>, config', w1)))"

definition GitFs_Pull :: "'w Lib \<Rightarrow> GitFs \<Rightarrow> 'w \<Rightarrow> (error option \<times> 'w) outcome" where
  "GitFs_Pull L h w = (case git h of None \<Rightarrow> Panic | Some g \<Rightarrow> Return (Pull L g w))"

text \<open>
  \<^verbatim>\<open>Sync\<close>: the steps in the order of the source, each guarded by the success of the
  ones before. The commit message is built between staging and committing, from the
  clock of that moment.
\<close>

definition Sync ::
  "'w Lib \<Rightarrow> bool \<Rightarrow> GitFs \<Rightarrow> 'w \<Rightarrow> (error option \<times> GitFs \<times> 'w) outcome" where
  "Sync L purge h w =
     (case git h of
        None \<Rightarrow> Panic
      | Some g \<Rightarrow>
     (case (if purge then Reset L g w else (None, g, w)) of
        (Some err, g1, w1) \<Rightarrow>
          Return (Some (Wrapf err ''error resetting git''), h\<lparr>git := Some g1\<rparr>, w1)
      | (None, g1, w1) \<Rightarrow>
     (case AddAll L g1 w1 of
        (Some err, w2) \<Rightarrow>
          Return (Some (Wrapf err ''error adding files to git''), h\<lparr>git := Some g1\<rparr>, w2)
      | (None, w2) \<Rightarrow>
     (case Commit L (''gitfs sync - '' @ Format L ''2006-01-02T15:04:05Z07:00'' (Now L w2))
             g1 w2 of
        (Some err, w3) \<Rightarrow>
          Return (Some (Wrapf err ''error committing sync changes''), h\<lparr>git := Some g1\<rparr>, w3)
      | (None, w3) \<Rightarrow>
     (case Push L g1 w3 of
        (Some err, w4) \<Rightarrow>
          Return (Some (Wrapf err ''error pushing change to remote repo''),
                  h\<lparr>git := Some g1\<rparr>, w4)
      | (None, w4) \<Rightarrow> Return (None, h\<lparr>git := Some g1\<rparr>, w4))))))"

subsection \<open>The forwarded operations\<close>

definition Create :: "'w Lib \<Rightarrow> GitFs \<Rightarrow> string \<Rightarrow> 'w \<Rightarrow> (error + fsval) \<times> 'w" where
  "Create L h filename w = fs_op L (fs h) (OpCreate filename) w"

definition Open :: "'w Lib \<Rightarrow> GitFs \<Rightarrow> string \<Rightarrow> 'w \<Rightarrow> (error + fsval) \<times> 'w" where
  "Open L h filename w = fs_op L (fs h) (OpOpen filename) w"

definition OpenFile ::
  "'w Lib \<Rightarrow> GitFs \<Rightarrow> string \<Rightarrow> int \<Rightarrow> nat \<Rightarrow> 'w \<Rightarrow> (error + fsval) \<times> 'w" where
  "OpenFile L h filename flag perm w = fs_op L (fs h) (OpOpenFile filename flag perm) w"

definition Stat :: "'w Lib \<Rightarrow> GitFs \<Rightarrow> string \<Rightarrow> 'w \<Rightarrow> error + FileInfo" where
  "Stat L h filename w = fs_Stat L (fs h) filename w"

definition Rename :: "'w Lib \<Rightarrow> GitFs \<Rightarrow> string \<Rightarrow> string \<Rightarrow> 'w \<Rightarrow> (error + fsval) \<times> 'w" where
  "Rename L h oldpath newpath w = fs_op L (fs h) (OpRename oldpath newpath) w"

definition Remove :: "'w Lib \<Rightarrow> GitFs \<Rightarrow> string \<Rightarrow> 'w \<Rightarrow> (error + fsval) \<times> 'w" where
  "Remove L h filename w = fs_op L (fs h) (OpRemove filename) w"

definition RemoveAll :: "'w Lib \<Rightarrow> GitFs \<Rightarrow> string \<Rightarrow> 'w \<Rightarrow> error option \<times> 'w" where
  "RemoveAll L h path w = util_RemoveAll L (fs h) path w"

definition GitFs_Join :: "'w Lib \<Rightarrow> GitFs \<Rightarrow> string list \<Rightarrow> 'w \<Rightarrow> (error + fsval) \<times> 'w" where
  "GitFs_Join L h elem w = fs_op L (fs h) (OpJoin elem) w"

definition TempFile :: "'w Lib \<Rightarrow> GitFs \<Rightarrow> string \<Rightarrow> string \<Rightarrow> 'w \<Rightarrow> (error + fsval) \<times> 'w" where
  "TempFile L h d prefix w = fs_op L (fs h) (OpTempFile d prefix) w"

definition ReadDir :: "'w Lib \<Rightarrow> GitFs \<Rightarrow> string \<Rightarrow> 'w \<Rightarrow> (error + fsval) \<times> 'w" where
  "ReadDir L h path w = fs_op L (fs h) (OpReadDir path) w"

definition MkdirAll :: "'w Lib \<Rightarrow> GitFs \<Rightarrow> string \<Rightarrow> nat \<Rightarrow> 'w \<Rightarrow> (error + fsval) \<times> 'w" where
  "MkdirAll L h filename perm w = fs_op L (fs h) (OpMkdirAll filename perm) w"

definition Lstat :: "'w Lib \<Rightarrow> GitFs \<Rightarrow> string \<Rightarrow> 'w \<Rightarrow> (error + fsval) \<times> 'w" where
  "Lstat L h filename w = fs_op L (fs h) (OpLstat filename) w"

definition Symlink :: "'w Lib \<Rightarrow> GitFs \<Rightarrow> string \<Rightarrow> string \<Rightarrow> 'w \<Rightarrow> (error + fsval) \<times> 'w" where
  "Symlink L h target link w = fs_op L (fs h) (OpSymlink target link) w"

definition Readlink :: "'w Lib \<Rightarrow> GitFs \<Rightarrow> string \<Rightarrow> 'w \<Rightarrow> (error + fsval) \<times> 'w" where
  "Readlink L h link w = fs_op L (fs h) (OpReadlink link) w"

text \<open>\<^verbatim>\<open>Chroot\<close> builds the new handle from the sub-rooted store alone.\<close>

definition Chroot :: "'w Lib \<Rightarrow> GitFs \<Rightarrow> string \<Rightarrow> 'w \<Rightarrow> error + GitFs" where
  "Chroot L h path w =
     (case fs_Chroot L (fs h) path w of
        Inl err \<Rightarrow> Inl err
      | Inr f \<Rightarrow> Inr \<lparr>git = None, fs = f\<rparr>)"

definition Root :: "'w Lib \<Rightarrow> GitFs \<Rightarrow> 'w \<Rightarrow> (error + fsval) \<times> 'w" where
  "Root L h w = fs_op L (fs h) OpRoot w"

definition Exist :: "'w Lib \<Rightarrow> GitFs \<Rightarrow> string \<Rightarrow> 'w \<Rightarrow> bool \<times> error option" where
  "Exist L h path w =
     (case fs_Stat L (fs h) path w of
        Inl err \<Rightarrow>
          if IsNotExist err then (False, None)
          else (False, Some (Wrapf err ''error stating path''))
      | Inr fi \<Rightarrow> (True, None))"

section \<open>Notions used to state the properties\<close>

subsection \<open>The paths a traversal visits\<close>

text \<open>
  A callback that records the paths it is called with, in order: the traversal run with
  it returns the list of the paths visited.
\<close>

definition logCallback :: "string \<Rightarrow> string list \<Rightarrow> error + string list" where
  "logCallback path ps = Inr (ps @ [path])"

text \<open>The elements of a path: the pieces between its separators.\<close>

fun components :: "string \<Rightarrow> string list" where
  "components [] = [[]]"
| "components (c # cs) =
     (if c = CHR ''/'' then [] # components cs
      else (case components cs of [] \<Rightarrow> [[c]] | x # xs \<Rightarrow> (c # x) # xs))"

text \<open>A path none of whose elements is the name of the metadata directory.\<close>

definition noGitDir :: "string \<Rightarrow> bool" where
  "noGitDir p \<longleftrightarrow> GitDirName \<notin> set (components p)"

text \<open>
  A callback restricted to such paths: on any other path it fails, whatever the
  callback would do there.
\<close>

definition guarded :: "(string \<Rightarrow> 's \<Rightarrow> error + 's) \<Rightarrow> string \<Rightarrow> 's \<Rightarrow> error + 's" where
  "guarded cb p s = (if noGitDir p then cb p s else Inl (Msg ''metadata path''))"

text \<open>
  The names a directory listing can hold: not empty, without a separator, and neither
  of the two names \<^verbatim>\<open>ReadDir\<close> leaves out. A tree is valid when every name in it is.
\<close>

definition validName :: "string \<Rightarrow> bool" where
  "validName n \<longleftrightarrow> n \<noteq> [] \<and> CHR ''/'' \<notin> set n \<and> n \<noteq> ''.'' \<and> n \<noteq> ''..''"

function validDir :: "dir \<Rightarrow> bool"
  and validFiles :: "(string \<times> dir option) list \<Rightarrow> bool"
where
  "validDir (Unreadable err) = True"
| "validDir (Listing files) = validFiles files"
| "validFiles [] = True"
| "validFiles ((name, sub) # files) =
     (validName name \<and> (case sub of None \<Rightarrow> True | Some t \<Rightarrow> validDir t) \<and> validFiles files)"
  by pat_completeness auto
termination
  by (relation "measure (\<lambda>x. case x of
        Inl t \<Rightarrow> size t
      | Inr files \<Rightarrow> size_list (size_prod (\<lambda>n. 0) (size_option size)) files)")
     auto

text \<open>
  The tree without its metadata entries: every entry named like the metadata directory
  is removed, with all below it, at every level.
\<close>

function pruneDir :: "dir \<Rightarrow> dir"
  and pruneFiles :: "(string \<times> dir option) list \<Rightarrow> (string \<times> dir option) list"
where
  "pruneDir (Unreadable err) = Unreadable err"
| "pruneDir (Listing files) = Listing (pruneFiles files)"
| "pruneFiles [] = []"
| "pruneFiles ((name, sub) # files) =
     (if name = GitDirName then pruneFiles files
      else (name, map_option pruneDir sub) # pruneFiles files)"
  by pat_completeness auto
termination
  by (relation "measure (\<lambda>x. case x of
        Inl t \<Rightarrow> size t
      | Inr files \<Rightarrow> size_list (size_prod (\<lambda>n. 0) (size_option size)) files)")
     auto

text \<open>Names joined by separators: the directory \<open>''/'' @ joinNames ns\<close> lies \<open>ns\<close> below the root.\<close>

fun joinNames :: "string list \<Rightarrow> string" where
  "joinNames [] = []"
| "joinNames [n] = n"
| "joinNames (n # ns) = n @ ''/'' @ joinNames ns"

subsection \<open>The decision table of status reconciliation\<close>

text \<open>
  The table of the status contract, row by row: no entry, both unmodified, one side
  unmodified, both equal, and the two sides in disagreement.
\<close>

definition spec_reconcile :: "FileStatus option \<Rightarrow> StatusCode option" where
  "spec_reconcile e =
     (case e of
        None \<Rightarrow> None
      | Some f \<Rightarrow>
          if Staging f = git_Unmodified \<and> Worktree f = git_Unmodified then None
          else if Staging f = git_Unmodified then Some (git_byte (Worktree f))
          else if Worktree f = git_Unmodified then Some (git_byte (Staging f))
          else if Staging f = Worktree f then Some (git_byte (Staging f))
          else Some Inconsistent)"

subsection \<open>Handles that differ in the flag \<^verbatim>\<open>pulled\<close> only\<close>

definition setPulled :: "bool \<Rightarrow> GitFs \<Rightarrow> GitFs" where
  "setPulled b h = h\<lparr>git := map_option (\<lambda>g. g\<lparr>pulled := b\<rparr>) (git h)\<rparr>"

section \<open>The sync protocol, in the words of its contract\<close>



section \<open>A library to run the program on\<close>

text \<open>
  A concrete library for evaluating the definitions. Its world is the list of the calls
  made so far that can change a world; the call named \<open>bad\<close> fails. The store holds a
  metadata directory, two files and a directory with one file and an entry named like
  the metadata directory.
\<close>

definition demoTree :: dir where
  "demoTree =
     Listing
       [(''.git'', Some (Listing [(''config'', None)])),
        (''a.txt'', None),
        (''docs'', Some (Listing [(''b.txt'', None), (''.git'', None)])),
        (''c.txt'', None)]"

definition demoStatus :: Status where
  "demoStatus =
     [''a.txt'' \<mapsto> \<lparr>Staging = git_Added, Worktree = git_Deleted\<rparr>,
      ''docs/b.txt'' \<mapsto> \<lparr>Staging = git_Unmodified, Worktree = git_Modified\<rparr>,
      ''c.txt'' \<mapsto> \<lparr>Staging = git_Unmodified, Worktree = git_Unmodified\<rparr>,
      ''gone.txt'' \<mapsto> \<lparr>Staging = git_Deleted, Worktree = git_Deleted\<rparr>]"

definition call :: "string \<Rightarrow> string \<Rightarrow> string list \<Rightarrow> error option \<times> string list" where
  "call bad name w = (if bad = name then Some (Msg name) else None, w @ [name])"

definition callRef :: "string \<Rightarrow> string \<Rightarrow> ref \<Rightarrow> string list \<Rightarrow> (error + ref) \<times> string list" where
  "callRef bad name r w = (if bad = name then Inl (Msg name) else Inr r, w @ [name])"

definition demoLib :: "string \<Rightarrow> string list Lib" where
  "demoLib bad =
     \<lparr>Getenv = (\<lambda>k w. ''/home/u''),
      ReadFile = (\<lambda>p w. if bad = ''ReadFile'' then Inl (Msg ''ReadFile'') else Inr ''key''),
      ParsePrivateKey = (\<lambda>k. Inr 7),
      memfs_New = (\<lambda>w. (1, w @ [''memfs.New''])),
      osfs_New = (\<lambda>d w. (1, w @ [''osfs.New''])),
      fs_Stat = (\<lambda>f p w.
         if ''RemoveAll'' \<in> set w \<or> p \<noteq> ''.git'' then Inl (NotExist p)
         else Inr \<lparr>Name = p, IsDir = True\<rparr>),
      fs_Chroot = (\<lambda>f p w. if bad = ''Chroot'' then Inl (Msg ''Chroot'') else Inr (f + 1)),
      fs_Tree = (\<lambda>f w. demoTree),
      fs_op = (\<lambda>f op w. (Inr VUnit, w @ [''fs''])),
      util_RemoveAll = (\<lambda>f p w. call bad ''RemoveAll'' w),
      NewStorage = (\<lambda>f. f + 1),
      git_Open = (\<lambda>st f w. callRef bad ''Open'' 4 w),
      git_CloneContext = (\<lambda>c st f opts w. callRef bad ''Clone'' 4 w),
      git_Init = (\<lambda>st f w. callRef bad ''Init'' 5 w),
      repo_CreateRemote = (\<lambda>r cfg w. call bad ''CreateRemote'' w),
      repo_Worktree = (\<lambda>r w. if bad = ''Worktree'' then Inl (Msg ''Worktree'') else Inr (r + 10)),
      repo_Push = (\<lambda>r opts w. call bad ''Push'' w),
      wt_Pull = (\<lambda>t opts w.
         if bad = ''UpToDate'' then (Some NoErrAlreadyUpToDate, w @ [''Pull''])
         else call bad ''Pull'' w),
      wt_Add = (\<lambda>t p w. call bad ''Add'' w),
      wt_Commit = (\<lambda>t msg opts w. call bad ''Commit'' w),
      wt_Status = (\<lambda>t w. if bad = ''Status'' then Inl (Msg ''Status'') else Inr demoStatus),
      Now = (\<lambda>w. length w),
      Format = (\<lambda>layout t. ''T'')\<rparr>"

definition demoGit :: Git where
  "demoGit =
     \<lparr>ctx = None, repoUrl = ''git@host:repo.git'', auth = PublicKeys ''git'' 7,
      fs = 1, repo = 4, wt = 14, pulled = False\<rparr>"

definition demoFs :: GitFs where
  "demoFs = \<lparr>git = Some demoGit, fs = 1\<rparr>"

text \<open>The same library over a store whose metadata path is a regular file.\<close>

definition fileLib :: "string list Lib" where
  "fileLib = (demoLib [])\<lparr>fs_Stat := (\<lambda>f p w. Inr \<lparr>Name = p, IsDir = False\<rparr>)\<rparr>"

section \<open>Validation of the configuration\<close>

text \<open>
  C5. Validation fails if and only if the URL is empty after trimming, or the store is
  the memory one and a base directory is left after trimming, or the store is the
  path-rooted one and no base directory is left after trimming. In every other case it
  succeeds.
\<close>

theorem Valid_fails_iff:
  "fst (Valid c) \<noteq> None \<longleftrightarrow>
     TrimSpace (Config.repoUrl c) = []
     \<or> (useMemFs c \<and> TrimSpace (osFsBaseDir c) \<noteq> [])
     \<or> (\<not> useMemFs c \<and> TrimSpace (osFsBaseDir c) = [])"
  by (simp add: Valid_def Let_def)

lemma TrimSpace_examples:
  "TrimSpace '' git@host:repo.git  '' = ''git@host:repo.git''"
  "TrimSpace [CHR 0x09, CHR 0xC2, CHR 0xA0, CHR 0x20] = []"
  "TrimSpace ''/srv/data'' = ''/srv/data''"
  "TrimSpace [] = []"
  by code_simp+

theorem Valid_fails_iff_witness:
  "fst (Valid \<lparr>Config.repoUrl = '' git@host:repo.git  '', useMemFs = True,
               osFsBaseDir = [CHR 0x09, CHR 0xC2, CHR 0xA0, CHR 0x20],
               openExisting = False\<rparr>) = None
   \<and> fst (Valid \<lparr>Config.repoUrl = '' git@host:repo.git  '', useMemFs = True,
               osFsBaseDir = ''/srv/data'', openExisting = False\<rparr>) \<noteq> None
   \<and> fst (Valid \<lparr>Config.repoUrl = '' git@host:repo.git  '', useMemFs = False,
               osFsBaseDir = [], openExisting = True\<rparr>) \<noteq> None
   \<and> fst (Valid \<lparr>Config.repoUrl = [CHR 0x09, CHR 0xC2, CHR 0xA0, CHR 0x20], useMemFs = False,
               osFsBaseDir = ''/srv/data'', openExisting = True\<rparr>) \<noteq> None"
  using
    Valid_fails_iff [of "\<lparr>Config.repoUrl = '' git@host:repo.git  '', useMemFs = True,
               osFsBaseDir = [CHR 0x09, CHR 0xC2, CHR 0xA0, CHR 0x20],
               openExisting = False\<rparr>"]
    Valid_fails_iff [of "\<lparr>Config.repoUrl = '' git@host:repo.git  '', useMemFs = True,
               osFsBaseDir = ''/srv/data'', openExisting = False\<rparr>"]
    Valid_fails_iff [of "\<lparr>Config.repoUrl = '' git@host:repo.git  '', useMemFs = False,
               osFsBaseDir = [], openExisting = True\<rparr>"]
    Valid_fails_iff [of "\<lparr>Config.repoUrl = [CHR 0x09, CHR 0xC2, CHR 0xA0, CHR 0x20], useMemFs = False,
               osFsBaseDir = ''/srv/data'', openExisting = True\<rparr>"]
  by (simp add: TrimSpace_examples)

lemmas demo_simps =
  demoLib_def demoFs_def demoGit_def call_def callRef_def GitDirName_def

section \<open>Handles\<close>

text \<open>Every handle that \<open>New\<close> returns carries a git client, over the client's own store.\<close>

lemma New_has_client:
  "New L c config w = (Inr h, config', w') \<Longrightarrow> \<exists>g. git h = Some g \<and> GitFs.fs h = Git.fs g"
  by (auto simp: New_def FileSystem_def split: prod.splits option.splits sum.splits)

section \<open>Pull\<close>

text \<open>
  C7. On a handle with its git client (every handle that \<open>New\<close> returns), Pull leaves
  the world as the pull of the working tree left it, and: when that pull finds nothing
  new (it reports already up-to-date) or succeeds, Pull returns no error; Pull returns
  an error exactly when that pull fails with any other error, and the error is that
  one, wrapped.
\<close>

theorem Pull_up_to_date_is_success:
  assumes "git h = Some g"
    and "wt_Pull L (wt g) (PullOptions ''origin'' (auth g)) w = (u, w1)"
  shows "\<exists>r. GitFs_Pull L h w = Return (r, w1)
    \<and> (u = None \<or> u = Some NoErrAlreadyUpToDate \<longrightarrow> r = None)
    \<and> (r \<noteq> None \<longleftrightarrow> (\<exists>e. u = Some e \<and> e \<noteq> NoErrAlreadyUpToDate))
    \<and> (\<forall>e. u = Some e \<and> e \<noteq> NoErrAlreadyUpToDate \<longrightarrow>
          r = Some (Wrapf e ''error pulling changes from origin''))"
  using assms by (cases u) (auto simp: GitFs_Pull_def Pull_def)

theorem Pull_up_to_date_is_success_witness:
  "GitFs_Pull (demoLib ''UpToDate'') demoFs [] = Return (None, [''Pull''])
   \<and> GitFs_Pull (demoLib []) demoFs [] = Return (None, [''Pull''])
   \<and> GitFs_Pull (demoLib ''Pull'') demoFs [] =
       Return (Some (Wrapf (Msg ''Pull'') ''error pulling changes from origin''), [''Pull''])"
  using
    Pull_up_to_date_is_success [of demoFs demoGit "demoLib ''UpToDate''" "[]"
      "Some NoErrAlreadyUpToDate" "[''Pull'']"]
    Pull_up_to_date_is_success [of demoFs demoGit "demoLib []" "[]" None "[''Pull'']"]
    Pull_up_to_date_is_success [of demoFs demoGit "demoLib ''Pull''" "[]"
      "Some (Msg ''Pull'')" "[''Pull'']"]
  by (simp add: demo_simps)

section \<open>Bootstrap over a metadata path that is not a directory\<close>

text \<open>
  C4, as the code has it. When the metadata path exists and is not a directory,
  \<open>buildDotStore\<close> fails for either value of the flag, and so does \<open>NewGit\<close> once the
  key is read: with "repo already exists" when \<open>errorIfExists\<close> is set, which is tested
  first, and with ".git is not a directory" when it is not.
\<close>

theorem bootstrap_metadata_not_a_directory:
  assumes "fs_Stat L f GitDirName w = Inr fi" and "\<not> IsDir fi"
  shows "buildDotStore L f errorIfExists w =
           (Inl (Msg (if errorIfExists then ''repo already exists''
                      else ''.git is not a directory'')), True)
    \<and> (ReadFile L (Getenv L ''HOME'' w0 @ ''/.ssh/id_rsa'') w0 = Inr key
         \<and> ParsePrivateKey L key = Inr signer
         \<and> (if useMemfs then memfs_New L w0 else osfs_New L baseDir w0) = (f, w)
       \<longrightarrow> NewGit L c url useMemfs baseDir errorIfExists w0 =
             (Inl (Wrapf (Msg (if errorIfExists then ''repo already exists''
                               else ''.git is not a directory''))
                    ''error chrooting .git''), w))"
proof -
  have b: "buildDotStore L f errorIfExists w =
           (Inl (Msg (if errorIfExists then ''repo already exists''
                      else ''.git is not a directory'')), True)"
    using assms by (simp add: buildDotStore_def)
  show ?thesis
    using b by (auto simp: NewGit_def)
qed

theorem bootstrap_metadata_not_a_directory_witness:
  "buildDotStore fileLib 1 False [''memfs.New''] =
     (Inl (Msg ''.git is not a directory''), True)
   \<and> buildDotStore fileLib 1 True [''memfs.New''] =
     (Inl (Msg ''repo already exists''), True)
   \<and> NewGit fileLib 0 ''git@host:repo.git'' True [] False [] =
     (Inl (Wrapf (Msg ''.git is not a directory'') ''error chrooting .git''), [''memfs.New''])"
  using
    bootstrap_metadata_not_a_directory [of fileLib 1 "[''memfs.New'']"
      "\<lparr>Name = ''.git'', IsDir = False\<rparr>" False "[]" "''key''" 7 True "[]" 0
      "''git@host:repo.git''"]
    bootstrap_metadata_not_a_directory [of fileLib 1 "[''memfs.New'']"
      "\<lparr>Name = ''.git'', IsDir = False\<rparr>" True "[]" "''key''" 7 True "[]" 0
      "''git@host:repo.git''"]
  by (simp add: fileLib_def demo_simps)

text \<open>
  The claim as it was stated promises the error ".git is not a directory" for either
  value of the flag. With the flag set, the code answers "repo already exists".
\<close>

theorem buildDotStore_flag_counterexample:
  "fs_Stat fileLib 1 GitDirName [] = Inr \<lparr>Name = ''.git'', IsDir = False\<rparr>
   \<and> buildDotStore fileLib 1 True [] = (Inl (Msg ''repo already exists''), True)
   \<and> fst (buildDotStore fileLib 1 True []) \<noteq> Inl (Msg ''.git is not a directory'')"
  by (simp add: buildDotStore_def fileLib_def demo_simps)

section \<open>Sync\<close>




lemma demo_reset_simps:
  "Reset (demoLib bad) demoGit [] =
     (if bad = ''RemoveAll'' then (Some (Wrapf (Msg ''RemoveAll'') ''error removing .git''), demoGit, [''RemoveAll''])
      else if bad = ''Chroot'' then (Some (Wrapf (Msg ''Chroot'') ''error chrooting .git''), demoGit, [''RemoveAll''])
      else if bad = ''Init'' then (Some (Wrapf (Msg ''Init'') ''error initing repo''), demoGit, [''RemoveAll'', ''Init''])
      else if bad = ''CreateRemote'' then (Some (Wrapf (Msg ''CreateRemote'') ''error pushing change''), demoGit, [''RemoveAll'', ''Init'', ''CreateRemote''])
      else if bad = ''Worktree'' then (Some (Wrapf (Msg ''Worktree'') ''error reading worktree''), demoGit, [''RemoveAll'', ''Init'', ''CreateRemote''])
      else (None, demoGit\<lparr>repo := 5, wt := 15\<rparr>, [''RemoveAll'', ''Init'', ''CreateRemote'']))"
  by (simp add: Reset_def buildDotStore_def demo_simps)


section \<open>Handles made by Chroot\<close>

lemmas facade_defs =
  Create_def Open_def OpenFile_def Stat_def Rename_def Remove_def RemoveAll_def
  GitFs_Join_def TempFile_def ReadDir_def MkdirAll_def Lstat_def Symlink_def
  Readlink_def Chroot_def Root_def Exist_def

text \<open>
  C10. Whenever Chroot succeeds, the handle it returns has no git client and is rooted
  at the store that the store's own Chroot returned. Pull and Sync on it fault, in any
  world and for either value of \<open>purge\<close>; every file operation on it goes to that
  sub-rooted store, and a further Chroot gives a handle without a client again.
\<close>

theorem Chroot_handle_has_no_client:
  assumes "Chroot L h path w = Inr h'"
  shows "git h' = None
    \<and> fs_Chroot L (GitFs.fs h) path w = Inr (GitFs.fs h')
    \<and> GitFs_Pull L h' w' = Panic
    \<and> Sync L purge h' w' = Panic
    \<and> Create L h' n w' = fs_op L (GitFs.fs h') (OpCreate n) w'
    \<and> Open L h' n w' = fs_op L (GitFs.fs h') (OpOpen n) w'
    \<and> OpenFile L h' n fl pm w' = fs_op L (GitFs.fs h') (OpOpenFile n fl pm) w'
    \<and> Stat L h' n w' = fs_Stat L (GitFs.fs h') n w'
    \<and> Rename L h' n n' w' = fs_op L (GitFs.fs h') (OpRename n n') w'
    \<and> Remove L h' n w' = fs_op L (GitFs.fs h') (OpRemove n) w'
    \<and> RemoveAll L h' n w' = util_RemoveAll L (GitFs.fs h') n w'
    \<and> GitFs_Join L h' ns w' = fs_op L (GitFs.fs h') (OpJoin ns) w'
    \<and> TempFile L h' n n' w' = fs_op L (GitFs.fs h') (OpTempFile n n') w'
    \<and> ReadDir L h' n w' = fs_op L (GitFs.fs h') (OpReadDir n) w'
    \<and> MkdirAll L h' n pm w' = fs_op L (GitFs.fs h') (OpMkdirAll n pm) w'
    \<and> Lstat L h' n w' = fs_op L (GitFs.fs h') (OpLstat n) w'
    \<and> Symlink L h' n n' w' = fs_op L (GitFs.fs h') (OpSymlink n n') w'
    \<and> Readlink L h' n w' = fs_op L (GitFs.fs h') (OpReadlink n) w'
    \<and> Root L h' w' = fs_op L (GitFs.fs h') OpRoot w'
    \<and> Exist L h' n w' =
        (case fs_Stat L (GitFs.fs h') n w' of
           Inl err \<Rightarrow> if IsNotExist err then (False, None)
                      else (False, Some (Wrapf err ''error stating path''))
         | Inr fi \<Rightarrow> (True, None))
    \<and> Chroot L h' n w' =
        (case fs_Chroot L (GitFs.fs h') n w' of
           Inl err \<Rightarrow> Inl err
         | Inr f \<Rightarrow> Inr \<lparr>git = None, fs = f\<rparr>)"
proof -
  from assms obtain f where f: "fs_Chroot L (GitFs.fs h) path w = Inr f"
    and h': "h' = \<lparr>git = None, fs = f\<rparr>"
    by (auto simp: Chroot_def split: sum.splits)
  show ?thesis
    unfolding h' using f
    by (simp add: GitFs_Pull_def Sync_def facade_defs)
qed

theorem Chroot_handle_has_no_client_witness:
  "Chroot (demoLib []) demoFs ''sub'' [] = Inr \<lparr>git = None, fs = 2\<rparr>
   \<and> GitFs_Pull (demoLib []) \<lparr>git = None, fs = 2\<rparr> [] = Panic
   \<and> Sync (demoLib []) False \<lparr>git = None, fs = 2\<rparr> [] = Panic
   \<and> Sync (demoLib []) True \<lparr>git = None, fs = 2\<rparr> [] = Panic
   \<and> Create (demoLib []) \<lparr>git = None, fs = 2\<rparr> ''x'' [] = (Inr VUnit, [''fs''])"
proof -
  have c: "Chroot (demoLib []) demoFs ''sub'' [] = Inr \<lparr>git = None, fs = 2\<rparr>"
    by (simp add: Chroot_def demo_simps)
  have cr: "Create (demoLib []) \<lparr>git = None, fs = 2\<rparr> ''x'' [] = (Inr VUnit, [''fs''])"
    by (simp add: Create_def demoLib_def)
  show ?thesis
    using
      Chroot_handle_has_no_client [OF c, of "[]" False "''x''"]
      Chroot_handle_has_no_client [OF c, of "[]" True "''x''"]
    by (simp add: c cr)
qed

section \<open>The flag \<^verbatim>\<open>pulled\<close>\<close>

lemma Reset_pulled:
  "Reset L (g\<lparr>pulled := b\<rparr>) w =
     (case Reset L g w of (r, g', w') \<Rightarrow> (r, g'\<lparr>pulled := b\<rparr>, w'))"
  by (simp add: Reset_def split: prod.splits option.splits sum.splits)

lemma Git_ops_pulled:
  "Pull L (g\<lparr>pulled := b\<rparr>) w = Pull L g w"
  "AddAll L (g\<lparr>pulled := b\<rparr>) w = AddAll L g w"
  "Commit L msg (g\<lparr>pulled := b\<rparr>) w = Commit L msg g w"
  "Push L (g\<lparr>pulled := b\<rparr>) w = Push L g w"
  "GetStatus L (g\<lparr>pulled := b\<rparr>) w = GetStatus L g w"
  "FileSystem (g\<lparr>pulled := b\<rparr>) = FileSystem g"
  by (simp_all add: Pull_def AddAll_def Commit_def Push_def GetStatus_def FileSystem_def
        split: sum.splits)

lemma Sync_pulled:
  "Sync L purge (setPulled b h) w =
     (case Sync L purge h w of
        Panic \<Rightarrow> Panic
      | Return (r, h', w') \<Rightarrow> Return (r, setPulled b h', w'))"
proof (cases "git h")
  case None
  then show ?thesis by (simp add: Sync_def setPulled_def)
next
  case (Some g)
  show ?thesis
  proof (cases purge)
    case True
    obtain r g1 w1 where R: "Reset L g w = (r, g1, w1)"
      by (cases "Reset L g w") auto
    then have R': "Reset L (g\<lparr>pulled := b\<rparr>) w = (r, g1\<lparr>pulled := b\<rparr>, w1)"
      by (simp add: Reset_pulled)
    show ?thesis using Some True R R'
      by (simp add: Sync_def setPulled_def Git_ops_pulled split: prod.splits option.splits)
  next
    case False
    then show ?thesis using Some
      by (simp add: Sync_def setPulled_def Git_ops_pulled split: prod.splits option.splits)
  qed
qed

lemma facade_pulled:
  "GitFs_Pull L (setPulled b h) w = GitFs_Pull L h w"
  "Create L (setPulled b h) n w = Create L h n w"
  "Open L (setPulled b h) n w = Open L h n w"
  "OpenFile L (setPulled b h) n fl pm w = OpenFile L h n fl pm w"
  "Stat L (setPulled b h) n w = Stat L h n w"
  "Rename L (setPulled b h) n n' w = Rename L h n n' w"
  "Remove L (setPulled b h) n w = Remove L h n w"
  "RemoveAll L (setPulled b h) n w = RemoveAll L h n w"
  "GitFs_Join L (setPulled b h) ns w = GitFs_Join L h ns w"
  "TempFile L (setPulled b h) n n' w = TempFile L h n n' w"
  "ReadDir L (setPulled b h) n w = ReadDir L h n w"
  "MkdirAll L (setPulled b h) n pm w = MkdirAll L h n pm w"
  "Lstat L (setPulled b h) n w = Lstat L h n w"
  "Symlink L (setPulled b h) n n' w = Symlink L h n n' w"
  "Readlink L (setPulled b h) n w = Readlink L h n w"
  "Chroot L (setPulled b h) n w = Chroot L h n w"
  "Root L (setPulled b h) w = Root L h w"
  "Exist L (setPulled b h) n w = Exist L h n w"
  by (cases "git h"; simp add: setPulled_def GitFs_Pull_def Git_ops_pulled facade_defs)+

lemma NewGit_pulled: "NewGit L c url m d e w = (Inr g, w') \<Longrightarrow> \<not> pulled g"
  by (auto simp: NewGit_def Let_def split: sum.splits prod.splits if_splits)

text \<open>
  C9. No operation reads the flag \<^verbatim>\<open>pulled\<close>. Run on two clients, or two handles, that
  differ in the flag only, each operation of the git client (Reset, Pull, AddAll,
  Commit, Push, GetStatus, FileSystem) and of the handle (Pull, Sync and every file
  operation) returns the same result and leaves the same world; where it returns the
  client or the handle, the two differ in the flag only, as before. The flag is false
  in every client that \<open>NewGit\<close> creates.
\<close>

theorem pulled_flag_is_never_read:
  "Reset L (g\<lparr>pulled := b\<rparr>) w =
     (case Reset L g w of (r, g', w') \<Rightarrow> (r, g'\<lparr>pulled := b\<rparr>, w'))
   \<and> Pull L (g\<lparr>pulled := b\<rparr>) w = Pull L g w
   \<and> AddAll L (g\<lparr>pulled := b\<rparr>) w = AddAll L g w
   \<and> Commit L msg (g\<lparr>pulled := b\<rparr>) w = Commit L msg g w
   \<and> Push L (g\<lparr>pulled := b\<rparr>) w = Push L g w
   \<and> GetStatus L (g\<lparr>pulled := b\<rparr>) w = GetStatus L g w
   \<and> FileSystem (g\<lparr>pulled := b\<rparr>) = FileSystem g
   \<and> GitFs_Pull L (setPulled b h) w = GitFs_Pull L h w
   \<and> Sync L purge (setPulled b h) w =
       (case Sync L purge h w of
          Panic \<Rightarrow> Panic
        | Return (r, h', w') \<Rightarrow> Return (r, setPulled b h', w'))
   \<and> Create L (setPulled b h) n w = Create L h n w
   \<and> Open L (setPulled b h) n w = Open L h n w
   \<and> OpenFile L (setPulled b h) n fl pm w = OpenFile L h n fl pm w
   \<and> Stat L (setPulled b h) n w = Stat L h n w
   \<and> Rename L (setPulled b h) n n' w = Rename L h n n' w
   \<and> Remove L (setPulled b h) n w = Remove L h n w
   \<and> RemoveAll L (setPulled b h) n w = RemoveAll L h n w
   \<and> GitFs_Join L (setPulled b h) ns w = GitFs_Join L h ns w
   \<and> TempFile L (setPulled b h) n n' w = TempFile L h n n' w
   \<and> ReadDir L (setPulled b h) n w = ReadDir L h n w
   \<and> MkdirAll L (setPulled b h) n pm w = MkdirAll L h n pm w
   \<and> Lstat L (setPulled b h) n w = Lstat L h n w
   \<and> Symlink L (setPulled b h) n n' w = Symlink L h n n' w
   \<and> Readlink L (setPulled b h) n w = Readlink L h n w
   \<and> Chroot L (setPulled b h) n w = Chroot L h n w
   \<and> Root L (setPulled b h) w = Root L h w
   \<and> Exist L (setPulled b h) n w = Exist L h n w
   \<and> (\<forall>c url m d e w0 g0 w1. NewGit L c url m d e w0 = (Inr g0, w1) \<longrightarrow> \<not> pulled g0)"
  using NewGit_pulled [of L]
  by (simp only: Reset_pulled Git_ops_pulled Sync_pulled facade_pulled) blast

theorem pulled_flag_is_never_read_witness:
  "Sync (demoLib []) False (setPulled True demoFs) [] =
     Return (None, setPulled True demoFs, [''Add'', ''Commit'', ''Push''])
   \<and> GitFs_Pull (demoLib []) (setPulled True demoFs) [] = Return (None, [''Pull''])
   \<and> Reset (demoLib ''Init'') (demoGit\<lparr>pulled := True\<rparr>) [] =
       (Some (Wrapf (Msg ''Init'') ''error initing repo''), demoGit\<lparr>pulled := True\<rparr>,
        [''RemoveAll'', ''Init''])
   \<and> pulled (projr (fst (NewGit (demoLib []) 0 ''git@host:repo.git'' True [] False []))) = False"
proof -
  have h: "git demoFs = Some demoGit"
    by (simp add: demoFs_def)
  have same: "demoFs\<lparr>git := Some demoGit\<rparr> = demoFs"
    by (simp add: demoFs_def)
  have s: "Sync (demoLib []) False demoFs [] = Return (None, demoFs, [''Add'', ''Commit'', ''Push''])"
    by (simp add: Sync_def h same AddAll_def Commit_def Push_def demoLib_def call_def)
  have p: "GitFs_Pull (demoLib []) demoFs [] = Return (None, [''Pull''])"
    by (simp add: GitFs_Pull_def Pull_def h demoLib_def call_def)
  have r: "Reset (demoLib ''Init'') demoGit [] =
       (Some (Wrapf (Msg ''Init'') ''error initing repo''), demoGit, [''RemoveAll'', ''Init''])"
    by (simp add: demo_reset_simps)
  have n: "NewGit (demoLib []) 0 ''git@host:repo.git'' True [] False [] =
       (Inr \<lparr>ctx = None, repoUrl = ''git@host:repo.git'', auth = PublicKeys ''git'' 7,
              fs = 1, repo = 4, wt = 14, pulled = False\<rparr>, [''memfs.New'', ''Open''])"
    by (simp add: NewGit_def buildDotStore_def demo_simps)
  show ?thesis
    using
      pulled_flag_is_never_read [where L = "demoLib []" and g = demoGit and b = True
        and w = "[]" and h = demoFs and purge = False]
      pulled_flag_is_never_read [where L = "demoLib ''Init''" and g = demoGit and b = True
        and w = "[]" and h = demoFs and purge = False]
    by (simp add: s p r n)
qed

section \<open>The traversal\<close>

text \<open>
  Two callbacks that keep their states related, step by step, make two traversals of one
  tree that fail alike or end in related states.
\<close>

lemma traverse_sim:
  fixes cb :: "string \<Rightarrow> 's \<Rightarrow> error + 's" and cb' :: "string \<Rightarrow> 'a \<Rightarrow> error + 'a"
  assumes step: "\<And>p s a. R s a \<Longrightarrow> rel_sum (=) R (cb p s) (cb' p a)"
  shows "R s a \<Longrightarrow> rel_sum (=) R (traverseDir t d cb s) (traverseDir t d cb' a)"
    and "R s a \<Longrightarrow> rel_sum (=) R (traverseFiles files d cb s) (traverseFiles files d cb' a)"
  using step
proof (induction t d cb s and files d cb s arbitrary: a and a rule: traverseDir_traverseFiles.induct)
  case (1 err d cb s)
  then show ?case by simp
next
  case (2 files d cb s)
  then show ?case by simp
next
  case (3 d cb s)
  then show ?case by simp
next
  case (4 name sub files d cb s)
  note step = "4.prems"(2)
  show ?case
  proof (cases "name = GitDirName")
    case True
    then show ?thesis using "4.IH"(1) "4.prems" by simp
  next
    case False
    show ?thesis
    proof (cases sub)
      case None
      let ?p = "drop 1 (Join d name)"
      from step [OF "4.prems"(1), of ?p]
      consider (err) e where "cb ?p s = Inl e" "cb' ?p a = Inl e"
        | (ok) b b' where "cb ?p s = Inr b" "cb' ?p a = Inr b'" "R b b'"
        by (auto simp: rel_sum.simps)
      then show ?thesis
      proof cases
        case err
        then show ?thesis using False None by simp
      next
        case ok
        then show ?thesis
          using False None "4.IH"(2) [OF False refl None ok(1) ok(3) step] by simp
      qed
    next
      case (Some t)
      let ?p = "Join d name"
      from "4.IH"(3) [OF False refl Some "4.prems"(1) step]
      consider (err) e where "traverseDir t ?p cb s = Inl e" "traverseDir t ?p cb' a = Inl e"
        | (ok) b b' where "traverseDir t ?p cb s = Inr b" "traverseDir t ?p cb' a = Inr b'" "R b b'"
        by (auto simp: rel_sum.simps)
      then show ?thesis
      proof cases
        case err
        then show ?thesis using False Some by simp
      next
        case ok
        then show ?thesis
          using False Some "4.IH"(4) [OF False refl Some ok(1) ok(3) step] by simp
      qed
    qed
  qed
qed


text \<open>A property of the state that every call of the callback keeps is kept by the traversal.\<close>

lemma traverse_invariant:
  fixes cb :: "string \<Rightarrow> 's \<Rightarrow> error + 's"
  assumes "\<And>p s s'. I s \<Longrightarrow> cb p s = Inr s' \<Longrightarrow> I s'"
    and "I s" and "traverseDir t d cb s = Inr s'"
  shows "I s'"
proof -
  have "rel_sum (=) (\<lambda>a b. a = b \<and> I a) (traverseDir t d cb s) (traverseDir t d cb s)"
  proof (rule traverse_sim(1))
    show "s = s \<and> I s" using assms(2) by simp
  next
    fix p and a b :: 's
    assume "a = b \<and> I a"
    then show "rel_sum (=) (\<lambda>a b. a = b \<and> I a) (cb p a) (cb p b)"
      using assms(1) [of a p] by (cases "cb p a") auto
  qed
  then show ?thesis using assms(3) by (simp add: rel_sum.simps)
qed


subsection \<open>Paths\<close>

lemma components_not_Nil [simp]: "components p \<noteq> []"
  by (induction p) (auto split: list.splits)

lemma components_no_slash: "CHR ''/'' \<notin> set n \<Longrightarrow> components n = [n]"
  by (induction n) auto

lemma components_append:
  "CHR ''/'' \<notin> set n \<Longrightarrow> components (n @ CHR ''/'' # rest) = n # components rest"
  by (induction n) auto

lemma components_joinNames:
  "ns \<noteq> [] \<Longrightarrow> \<forall>n\<in>set ns. CHR ''/'' \<notin> set n \<Longrightarrow> components (joinNames ns) = ns"
  by (induction ns rule: joinNames.induct) (auto simp: components_no_slash components_append)

lemma joinNames_snoc: "ns \<noteq> [] \<Longrightarrow> joinNames (ns @ [n]) = joinNames ns @ ''/'' @ n"
  by (induction ns rule: joinNames.induct) auto

lemma joinNames_nonempty: "ns \<noteq> [] \<Longrightarrow> \<forall>n\<in>set ns. n \<noteq> [] \<Longrightarrow> joinNames ns \<noteq> []"
  by (induction ns rule: joinNames.induct) auto

lemma Join_rootPath:
  assumes "\<forall>m\<in>set ns. m \<noteq> []"
  shows "Join (''/'' @ joinNames ns) n = ''/'' @ joinNames (ns @ [n])"
proof (cases ns)
  case Nil
  then show ?thesis by (simp add: Join_def)
next
  case (Cons a as)
  then have "joinNames ns \<noteq> []" using assms joinNames_nonempty by blast
  then show ?thesis using Cons joinNames_snoc [of ns n] by (simp add: Join_def)
qed


lemma callback_path_noGitDir:
  assumes "\<forall>m\<in>set ns. validName m \<and> m \<noteq> GitDirName"
    and "validName name" and "name \<noteq> GitDirName"
  shows "noGitDir (drop 1 (Join (''/'' @ joinNames ns) name))"
proof -
  have ne: "\<forall>m\<in>set ns. m \<noteq> []"
    using assms(1) by (simp add: validName_def)
  have "\<forall>m\<in>set (ns @ [name]). CHR ''/'' \<notin> set m"
    using assms(1,2) by (auto simp: validName_def)
  then have "components (joinNames (ns @ [name])) = ns @ [name]"
    by (intro components_joinNames) simp_all
  moreover have "drop 1 (Join (''/'' @ joinNames ns) name) = joinNames (ns @ [name])"
    unfolding Join_rootPath [OF ne] by simp
  ultimately have "components (drop 1 (Join (''/'' @ joinNames ns) name)) = ns @ [name]"
    by simp
  then show ?thesis
    unfolding noGitDir_def using assms(1,3) by auto
qed

lemma traverse_guarded:
  fixes cb :: "string \<Rightarrow> 's \<Rightarrow> error + 's"
  shows "validDir t \<Longrightarrow> d = ''/'' @ joinNames ns
         \<Longrightarrow> \<forall>m\<in>set ns. validName m \<and> m \<noteq> GitDirName
         \<Longrightarrow> traverseDir t d (guarded cb) s = traverseDir t d cb s"
    and "validFiles files \<Longrightarrow> d = ''/'' @ joinNames ns
         \<Longrightarrow> \<forall>m\<in>set ns. validName m \<and> m \<noteq> GitDirName
         \<Longrightarrow> traverseFiles files d (guarded cb) s = traverseFiles files d cb s"
proof (induction t d cb s and files d cb s arbitrary: ns and ns
       rule: traverseDir_traverseFiles.induct)
  case (1 err d cb s)
  then show ?case by simp
next
  case (2 files d cb s)
  then show ?case by simp
next
  case (3 d cb s)
  then show ?case by simp
next
  case (4 name sub files d cb s)
  note d = "4.prems"(2) and ns = "4.prems"(3)
  have vfiles: "validFiles files" and vname: "validName name"
    using "4.prems"(1) by simp_all
  show ?case
  proof (cases "name = GitDirName")
    case True
    then show ?thesis using "4.IH"(1) [OF True vfiles d ns] by simp
  next
    case False
    have ne: "\<forall>m\<in>set ns. m \<noteq> []"
      using ns by (simp add: validName_def)
    have path: "Join d name = ''/'' @ joinNames (ns @ [name])"
      unfolding d by (rule Join_rootPath [OF ne])
    have ns': "\<forall>m\<in>set (ns @ [name]). validName m \<and> m \<noteq> GitDirName"
      using ns vname False by simp
    show ?thesis
    proof (cases sub)
      case None
      have "noGitDir (drop 1 (Join d name))"
        unfolding d by (rule callback_path_noGitDir [OF ns vname False])
      then have g: "guarded cb (drop 1 (Join d name)) s = cb (drop 1 (Join d name)) s"
        by (simp add: guarded_def)
      show ?thesis
      proof (cases "cb (drop 1 (Join d name)) s")
        case (Inl e)
        then show ?thesis using False None g by simp
      next
        case (Inr b)
        then show ?thesis
          using False None g "4.IH"(2) [OF False refl None Inr vfiles d ns] by simp
      qed
    next
      case (Some t)
      have vt: "validDir t" using "4.prems"(1) Some by simp
      have sub: "traverseDir t (Join d name) (guarded cb) s = traverseDir t (Join d name) cb s"
        by (rule "4.IH"(3) [OF False refl Some vt path ns'])
      show ?thesis
      proof (cases "traverseDir t (Join d name) cb s")
        case (Inl e)
        then show ?thesis using False Some sub by simp
      next
        case (Inr b)
        then show ?thesis
          using False Some sub "4.IH"(4) [OF False refl Some Inr vfiles d ns] by simp
      qed
    qed
  qed
qed

lemma traverse_pruned:
  fixes cb :: "string \<Rightarrow> 's \<Rightarrow> error + 's"
  shows "traverseDir (pruneDir t) d cb s = traverseDir t d cb s"
    and "traverseFiles (pruneFiles files) d cb s = traverseFiles files d cb s"
proof (induction t d cb s and files d cb s rule: traverseDir_traverseFiles.induct)
  case (1 err d cb s)
  then show ?case by simp
next
  case (2 files d cb s)
  then show ?case by simp
next
  case (3 d cb s)
  then show ?case by simp
next
  case (4 name sub files d cb s)
  show ?case
  proof (cases "name = GitDirName")
    case True
    then show ?thesis using "4.IH"(1) by simp
  next
    case False
    show ?thesis
    proof (cases sub)
      case None
      then show ?thesis
        using False "4.IH"(2) [OF False refl None] by (simp split: sum.splits)
    next
      case (Some t)
      then show ?thesis
        using False "4.IH"(3) [OF False refl Some] "4.IH"(4) [OF False refl Some]
        by (simp split: sum.splits)
    qed
  qed
qed



subsection \<open>The status map is the decision table over the visited paths\<close>

lemma statusCallback_reconcile:
  "statusCallback s p m = Inr (case spec_reconcile (s p) of None \<Rightarrow> m | Some c \<Rightarrow> m(p \<mapsto> c))"
  by (auto simp: statusCallback_def spec_reconcile_def split: option.splits)

lemma git_byte_codes:
  "git_byte git_Unmodified = Unmodified"
  "git_byte git_Untracked = Untracked"
  "git_byte git_Modified = Modified"
  "git_byte git_Added = Added"
  "git_byte git_Deleted = Deleted"
  "git_byte git_Renamed = Renamed"
  "git_byte git_Copied = Copied"
  "git_byte git_UpdatedButUnmerged = UpdatedButUnmerged"
  by (simp_all add: Unmodified_def Untracked_def Modified_def Added_def Deleted_def
        Renamed_def Copied_def UpdatedButUnmerged_def)

lemma git_byte_not_Inconsistent: "git_byte c \<noteq> Inconsistent"
  by (cases c) (simp_all add: Inconsistent_def)

lemma traverse_status_log:
  "rel_sum (=) (\<lambda>m ps. m = (\<lambda>p. if p \<in> set ps then spec_reconcile (s p) else None))
     (traverseDir t d (statusCallback s) Map.empty) (traverseDir t d logCallback [])"
proof (rule traverse_sim(1))
  show "Map.empty = (\<lambda>p. if p \<in> set [] then spec_reconcile (s p) else None)"
    by simp
next
  fix p :: string and m :: "string \<rightharpoonup> StatusCode" and ps :: "string list"
  assume "m = (\<lambda>p. if p \<in> set ps then spec_reconcile (s p) else None)"
  then show "rel_sum (=) (\<lambda>m ps. m = (\<lambda>p. if p \<in> set ps then spec_reconcile (s p) else None))
     (statusCallback s p m) (logCallback p ps)"
    by (auto simp: statusCallback_reconcile logCallback_def fun_eq_iff split: option.splits)
qed

lemma GetStatus_as_table:
  assumes "wt_Status L (wt g) w = Inr s"
    and "traverseDir (fs_Tree L (Git.fs g) w) ''/'' logCallback [] = Inr ps"
  shows "GetStatus L g w = Inr (\<lambda>p. if p \<in> set ps then spec_reconcile (s p) else None)"
  using traverse_status_log [of s "fs_Tree L (Git.fs g) w" "''/''"] assms
  by (auto simp: GetStatus_def rel_sum.simps)

lemma GetStatus_log_exists:
  assumes "GetStatus L g w = Inr files"
  shows "\<exists>s ps. wt_Status L (wt g) w = Inr s
           \<and> traverseDir (fs_Tree L (Git.fs g) w) ''/'' logCallback [] = Inr ps"
proof -
  from assms obtain s where s: "wt_Status L (wt g) w = Inr s"
    and t: "traverseDir (fs_Tree L (Git.fs g) w) ''/'' (statusCallback s) Map.empty = Inr files"
    by (auto simp: GetStatus_def split: sum.splits)
  from traverse_status_log [of s "fs_Tree L (Git.fs g) w" "''/''"] t
  obtain ps where "traverseDir (fs_Tree L (Git.fs g) w) ''/'' logCallback [] = Inr ps"
    by (auto simp: rel_sum.simps)
  with s show ?thesis by blast
qed


text \<open>
  C1. When the raw status \<open>s\<close> is obtained and the store can be walked, visiting the
  paths \<open>ps\<close>, \<open>GetStatus\<close> returns a map, and that map is fixed by the table: a path
  that is not visited has no entry; a visited path has no entry when it has no raw
  status or both its states are Unmodified; when one state is Unmodified the entry is
  the code of the other; when both are equal and not Unmodified the entry is their
  common code; and the entry is Inconsistent exactly when the path has a raw status
  whose two states are not Unmodified and differ.
\<close>

theorem GetStatus_decision_table:
  assumes "wt_Status L (wt g) w = Inr s"
    and "traverseDir (fs_Tree L (Git.fs g) w) ''/'' logCallback [] = Inr ps"
  shows "\<exists>files. GetStatus L g w = Inr files
    \<and> (\<forall>p. p \<notin> set ps \<longrightarrow> files p = None)
    \<and> (\<forall>p\<in>set ps.
          (s p = None \<longrightarrow> files p = None)
        \<and> (\<forall>f. s p = Some f \<longrightarrow>
              (Staging f = git_Unmodified \<and> Worktree f = git_Unmodified \<longrightarrow> files p = None)
            \<and> (Staging f = git_Unmodified \<and> Worktree f \<noteq> git_Unmodified \<longrightarrow>
                 files p = Some (git_byte (Worktree f)))
            \<and> (Staging f \<noteq> git_Unmodified \<and> Worktree f = git_Unmodified \<longrightarrow>
                 files p = Some (git_byte (Staging f)))
            \<and> (Staging f \<noteq> git_Unmodified \<and> Worktree f \<noteq> git_Unmodified
                 \<and> Staging f = Worktree f \<longrightarrow> files p = Some (git_byte (Staging f))))
        \<and> (files p = Some Inconsistent \<longleftrightarrow>
              (\<exists>f. s p = Some f \<and> Staging f \<noteq> git_Unmodified
                 \<and> Worktree f \<noteq> git_Unmodified \<and> Staging f \<noteq> Worktree f)))"
  unfolding GetStatus_as_table [OF assms]
  by (auto simp: spec_reconcile_def git_byte_not_Inconsistent split: option.splits if_splits)


theorem GetStatus_decision_table_witness:
  "\<exists>files. GetStatus (demoLib []) demoGit [] = Inr files
     \<and> files ''a.txt'' = Some Inconsistent
     \<and> files ''docs/b.txt'' = Some Modified
     \<and> files ''c.txt'' = None
     \<and> files ''gone.txt'' = None
     \<and> files ''docs/.git'' = None"
proof -
  have st: "wt_Status (demoLib []) (wt demoGit) [] = Inr demoStatus"
    by (simp add: demoLib_def)
  have lg: "traverseDir (fs_Tree (demoLib []) (Git.fs demoGit) []) ''/'' logCallback [] =
              Inr [''a.txt'', ''docs/b.txt'', ''c.txt'']"
    by (simp add: demoLib_def demoTree_def GitDirName_def Join_def logCallback_def)
  from GetStatus_decision_table [OF st lg]
  obtain files where F: "GetStatus (demoLib []) demoGit [] = Inr files
    \<and> (\<forall>p. p \<notin> set [''a.txt'', ''docs/b.txt'', ''c.txt''] \<longrightarrow> files p = None)
    \<and> (\<forall>p\<in>set [''a.txt'', ''docs/b.txt'', ''c.txt''].
          (demoStatus p = None \<longrightarrow> files p = None)
        \<and> (\<forall>f. demoStatus p = Some f \<longrightarrow>
              (Staging f = git_Unmodified \<and> Worktree f = git_Unmodified \<longrightarrow> files p = None)
            \<and> (Staging f = git_Unmodified \<and> Worktree f \<noteq> git_Unmodified \<longrightarrow>
                 files p = Some (git_byte (Worktree f)))
            \<and> (Staging f \<noteq> git_Unmodified \<and> Worktree f = git_Unmodified \<longrightarrow>
                 files p = Some (git_byte (Staging f)))
            \<and> (Staging f \<noteq> git_Unmodified \<and> Worktree f \<noteq> git_Unmodified
                 \<and> Staging f = Worktree f \<longrightarrow> files p = Some (git_byte (Staging f))))
        \<and> (files p = Some Inconsistent \<longleftrightarrow>
              (\<exists>f. demoStatus p = Some f \<and> Staging f \<noteq> git_Unmodified
                 \<and> Worktree f \<noteq> git_Unmodified \<and> Staging f \<noteq> Worktree f)))" ..
  note g = F [THEN conjunct1]
  note out = F [THEN conjunct2, THEN conjunct1]
  note tab = F [THEN conjunct2, THEN conjunct2]
  have sa: "demoStatus ''a.txt'' = Some \<lparr>Staging = git_Added, Worktree = git_Deleted\<rparr>"
    and sb: "demoStatus ''docs/b.txt'' = Some \<lparr>Staging = git_Unmodified, Worktree = git_Modified\<rparr>"
    and sc: "demoStatus ''c.txt'' = Some \<lparr>Staging = git_Unmodified, Worktree = git_Unmodified\<rparr>"
    by (simp_all add: demoStatus_def)
  have a: "files ''a.txt'' = Some Inconsistent \<longleftrightarrow>
              (\<exists>f. demoStatus ''a.txt'' = Some f \<and> Staging f \<noteq> git_Unmodified
                 \<and> Worktree f \<noteq> git_Unmodified \<and> Staging f \<noteq> Worktree f)"
    using tab [THEN bspec, of "''a.txt''"] by simp
  have b: "files ''docs/b.txt'' = Some (git_byte git_Modified)"
    using tab [THEN bspec, of "''docs/b.txt''"] sb by simp
  have c: "files ''c.txt'' = None"
    using tab [THEN bspec, of "''c.txt''"] sc by simp
  have "files ''a.txt'' = Some Inconsistent"
    using a sa by simp
  moreover have "files ''docs/b.txt'' = Some Modified"
    using b by (simp add: Modified_def)
  moreover have "files ''gone.txt'' = None" and "files ''docs/.git'' = None"
    using out by simp_all
  ultimately show ?thesis
    using g c by blast
qed

subsection \<open>The metadata directory is skipped\<close>

lemma log_noGitDir:
  assumes "validDir t" and "traverseDir t ''/'' logCallback [] = Inr ps"
  shows "\<forall>p\<in>set ps. noGitDir p"
proof -
  have "traverseDir t ''/'' (guarded logCallback) [] = Inr ps"
    using traverse_guarded(1) [OF assms(1), of "''/''" "[]" logCallback "[]"] assms(2) by simp
  then show ?thesis
    by (rule traverse_invariant [where I = "\<lambda>ps. \<forall>p\<in>set ps. noGitDir p", rotated 2])
       (auto simp: guarded_def logCallback_def split: if_splits)
qed

lemma noGitDir_not_GitDirName: "noGitDir p \<Longrightarrow> p \<noteq> GitDirName"
  by (auto simp: noGitDir_def GitDirName_def)


text \<open>
  C6. In every store whose entries have valid names, walked from the root: the
  callback is only ever called on paths none of whose elements is the name of the
  metadata directory, so that what a callback would do on any other path has no effect
  on the traversal; the traversal is the traversal of the tree from which every entry
  of that name has been removed with all below it; the paths visited are such paths, and
  none is the metadata name itself; and so is every key of a status map.
\<close>

theorem metadata_directory_never_visited:
  fixes cb cb' :: "string \<Rightarrow> 's \<Rightarrow> error + 's"
  assumes "validDir t"
  shows "((\<forall>p s. noGitDir p \<longrightarrow> cb p s = cb' p s) \<longrightarrow>
            traverseDir t ''/'' cb s0 = traverseDir t ''/'' cb' s0)
    \<and> traverseDir (pruneDir t) ''/'' cb s0 = traverseDir t ''/'' cb s0
    \<and> (traverseDir t ''/'' logCallback [] = Inr ps \<longrightarrow>
          (\<forall>p\<in>set ps. noGitDir p \<and> p \<noteq> GitDirName))
    \<and> (fs_Tree L (Git.fs g) w = t \<and> GetStatus L g w = Inr files \<longrightarrow>
          (\<forall>p\<in>dom files. noGitDir p \<and> p \<noteq> GitDirName))"
proof (intro conjI impI)
  assume agree: "\<forall>p s. noGitDir p \<longrightarrow> cb p s = cb' p s"
  then have "guarded cb = guarded cb'"
    by (auto simp: guarded_def fun_eq_iff)
  then show "traverseDir t ''/'' cb s0 = traverseDir t ''/'' cb' s0"
    using traverse_guarded(1) [OF assms, of "''/''" "[]" cb s0]
      traverse_guarded(1) [OF assms, of "''/''" "[]" cb' s0]
    by simp
next
  show "traverseDir (pruneDir t) ''/'' cb s0 = traverseDir t ''/'' cb s0"
    by (rule traverse_pruned(1))
next
  assume "traverseDir t ''/'' logCallback [] = Inr ps"
  then show "\<forall>p\<in>set ps. noGitDir p \<and> p \<noteq> GitDirName"
    using log_noGitDir [OF assms] noGitDir_not_GitDirName by blast
next
  assume a: "fs_Tree L (Git.fs g) w = t \<and> GetStatus L g w = Inr files"
  then have gs: "GetStatus L g w = Inr files"
    by simp
  from GetStatus_log_exists [OF gs]
  obtain s qs where s: "wt_Status L (wt g) w = Inr s"
    and qs: "traverseDir (fs_Tree L (Git.fs g) w) ''/'' logCallback [] = Inr qs"
    by blast
  have "files = (\<lambda>p. if p \<in> set qs then spec_reconcile (s p) else None)"
    using GetStatus_as_table [OF s qs] a by simp
  then have "dom files \<subseteq> set qs"
    by (auto split: if_splits)
  moreover have "\<forall>p\<in>set qs. noGitDir p"
    using log_noGitDir [OF assms] qs a by simp
  ultimately show "\<forall>p\<in>dom files. noGitDir p \<and> p \<noteq> GitDirName"
    using noGitDir_not_GitDirName by blast
qed


theorem metadata_directory_never_visited_witness:
  "validDir demoTree
   \<and> traverseDir demoTree ''/'' logCallback [] = Inr [''a.txt'', ''docs/b.txt'', ''c.txt'']
   \<and> traverseDir (pruneDir demoTree) ''/'' logCallback [] =
       Inr [''a.txt'', ''docs/b.txt'', ''c.txt'']
   \<and> noGitDir ''a.txt'' \<and> noGitDir ''docs/b.txt'' \<and> noGitDir ''c.txt''
   \<and> \<not> noGitDir ''docs/.git''"
proof -
  have v: "validDir demoTree"
    by (simp add: demoTree_def validName_def)
  have lg: "traverseDir demoTree ''/'' logCallback [] = Inr [''a.txt'', ''docs/b.txt'', ''c.txt'']"
    by (simp add: demoTree_def GitDirName_def Join_def logCallback_def)
  have n: "\<not> noGitDir ''docs/.git''"
    by (simp add: noGitDir_def GitDirName_def)
  show ?thesis
    using metadata_directory_never_visited [OF v, where cb = logCallback
        and cb' = logCallback and ?s0.0 = "[]" and ps = "[''a.txt'', ''docs/b.txt'', ''c.txt'']"
        and L = "demoLib []" and g = demoGit and w = "[]" and files = Map.empty]
    by (simp add: v lg n)
qed

subsection \<open>Asking twice\<close>




end
